theory Spec2Isabelle
  imports Complex_Main "HOL-Library.Word"
begin

section \<open>The Andor iXon Ultra 897 camera module\<close>

text \<open>
  A shallow embedding of \<^verbatim>\<open>hardware/camera/andor/iXon897_ultra.py\<close> (class
  \<^verbatim>\<open>IxonUltra\<close>). Conventions:
  \<^item> a method \<^verbatim>\<open>_name\<close> of the class is the constant \<open>name\<close>, an attribute
    \<^verbatim>\<open>self._name\<close> is the record field \<open>name\<close> (the leading underscore is dropped);
  \<^item> Python's numbers: \<^verbatim>\<open>int\<close> is \<open>int\<close>, \<^verbatim>\<open>float\<close> is \<open>real\<close> (rounding is
    not modelled), \<^verbatim>\<open>c_int(x).value\<close> is 32-bit two's complement wrap-around;
  \<^item> every method is a function from the state before the call to a result and the
    state after it; the result is a returned value or a raised exception, and the
    state after a raise is kept, as the attributes of the Python object are;
  \<^item> the vendor library behind \<^verbatim>\<open>self.dll\<close> is a parameter: a function from the
    calls made so far and the present call to the status code and the values the
    library writes through its pointer arguments. Every call is appended to the
    field \<open>calls\<close>, every line handed to \<^verbatim>\<open>self.log\<close> to the field \<open>logged\<close>.
\<close>

subsection \<open>Enumerations and the table of status codes\<close>

text \<open>
  \<^verbatim>\<open>hasattr(E, mode)\<close> and \<^verbatim>\<open>getattr(E, mode).value\<close> for an enumeration \<^verbatim>\<open>E\<close>
  are a lookup in the table of its members. (The names of the other attributes of
  an Enum class, such as \<^verbatim>\<open>__doc__\<close>, are not mode strings and are outside the
  model: for them \<^verbatim>\<open>hasattr\<close> holds and \<^verbatim>\<open>.value\<close> raises AttributeError, before
  any library call and any assignment.)
\<close>

definition ReadMode :: "string \<rightharpoonup> int" where
  "ReadMode = map_of
     [(''FVB'', 0), (''MULTI_TRACK'', 1), (''RANDOM_TRACK'', 2),
      (''SINGLE_TRACK'', 3), (''IMAGE'', 4)]"

definition AcquisitionMode :: "string \<rightharpoonup> int" where
  "AcquisitionMode = map_of
     [(''SINGLE_SCAN'', 1), (''ACCUMULATE'', 2), (''KINETICS'', 3),
      (''FAST_KINETICS'', 4), (''RUN_TILL_ABORT'', 5)]"

definition TriggerMode :: "string \<rightharpoonup> int" where
  "TriggerMode = map_of
     [(''INTERNAL'', 0), (''EXTERNAL'', 1), (''EXTERNAL_START'', 6),
      (''EXTERNAL_EXPOSURE'', 7), (''SOFTWARE_TRIGGER'', 10),
      (''EXTERNAL_CHARGE_SHIFTING'', 12)]"

definition ERROR_DICT :: "int \<rightharpoonup> string" where
  "ERROR_DICT = map_of
     [(20001, ''DRV_ERROR_CODES''),
      (20002, ''DRV_SUCCESS''),
      (20003, ''DRV_VXNOTINSTALLED''),
      (20006, ''DRV_ERROR_FILELOAD''),
      (20007, ''DRV_ERROR_VXD_INIT''),
      (20010, ''DRV_ERROR_PAGELOCK''),
      (20011, ''DRV_ERROR_PAGE_UNLOCK''),
      (20013, ''DRV_ERROR_ACK''),
      (20024, ''DRV_NO_NEW_DATA''),
      (20026, ''DRV_SPOOLERROR''),
      (20034, ''DRV_TEMP_OFF''),
      (20035, ''DRV_TEMP_NOT_STABILIZED''),
      (20036, ''DRV_TEMP_STABILIZED''),
      (20037, ''DRV_TEMP_NOT_REACHED''),
      (20038, ''DRV_TEMP_OUT_RANGE''),
      (20039, ''DRV_TEMP_NOT_SUPPORTED''),
      (20040, ''DRV_TEMP_DRIFT''),
      (20050, ''DRV_COF_NOTLOADED''),
      (20053, ''DRV_FLEXERROR''),
      (20066, ''DRV_P1INVALID''),
      (20067, ''DRV_P2INVALID''),
      (20068, ''DRV_P3INVALID''),
      (20069, ''DRV_P4INVALID''),
      (20070, ''DRV_INIERROR''),
      (20071, ''DRV_COERROR''),
      (20072, ''DRV_ACQUIRING''),
      (20073, ''DRV_IDLE''),
      (20074, ''DRV_TEMPCYCLE''),
      (20075, ''DRV_NOT_INITIALIZED''),
      (20076, ''DRV_P5INVALID''),
      (20077, ''DRV_P6INVALID''),
      (20078, ''DRV_INVALID_MODE''),
      (20079, ''DRV_INVALID_FILTER''),
      (20080, ''DRV_l2CERRORS''),
      (20081, ''DRV_DRV_l2CDEVNOTFOUND''),
      (20082, ''DRV_l2CTIMEOUT''),
      (20083, ''P7_INVALID''),
      (20089, ''DRV_USBERROR''),
      (20091, ''DRV_NOT_SUPPORTED''),
      (20095, ''DRV_INVALID_TRIGGER_MODE''),
      (20099, ''DRV_BINNING_ERROR''),
      (20990, ''DRV_NOCAMERA''),
      (20991, ''DRV_NOT_SUPPORTED''),
      (20992, ''DRV_NOT_AVAILABLE'')]"

subsection \<open>Values of ctypes and numpy\<close>

text \<open>\<^verbatim>\<open>c_int(x).value\<close>: ctypes does no overflow check, the value wraps to 32 bits.\<close>

definition c_int :: "int \<Rightarrow> int" where
  "c_int x = sint (word_of_int x :: 32 word)"

text \<open>
  \<^verbatim>\<open>int(a / b)\<close> on integers: true division, then truncation towards zero. (On the
  32-bit values it is applied to, the rounding of the float quotient never reaches
  an integer that the exact quotient does not reach.) The caller checks \<open>b = 0\<close>.
\<close>

definition int_truediv :: "int \<Rightarrow> int \<Rightarrow> int" where
  "int_truediv a b = sgn a * sgn b * (\<bar>a\<bar> div \<bar>b\<bar>)"

text \<open>A two-dimensional numpy array: its shape (rows, columns) and its samples in row-major order.\<close>

record ndarray =
  shape :: "nat \<times> nat"
  data :: "int list"

datatype exn =
  KeyError | UnboundLocalError | TypeError | ValueError | ZeroDivisionError

datatype 'a result = Ret 'a | Raise exn

text \<open>
  \<^verbatim>\<open>np.reshape(a, (h, w))\<close> of a flat array: the sizes must agree; one dimension may
  be negative and is then inferred from the other; anything else is a ValueError.
\<close>

definition np_reshape :: "int list \<Rightarrow> int \<Rightarrow> int \<Rightarrow> ndarray result" where
  "np_reshape a h w =
     (let n = int (length a) in
      if 0 \<le> h \<and> 0 \<le> w then
        (if h * w = n then Ret \<lparr>shape = (nat h, nat w), data = a\<rparr> else Raise ValueError)
      else if h < 0 \<and> 0 < w \<and> n mod w = 0 then
        Ret \<lparr>shape = (nat (n div w), nat w), data = a\<rparr>
      else if w < 0 \<and> 0 < h \<and> n mod h = 0 then
        Ret \<lparr>shape = (nat h, nat (n div h)), data = a\<rparr>
      else Raise ValueError)"

subsection \<open>The vendor library\<close>

text \<open>The functions of the library that the modelled methods call, with their arguments.\<close>

datatype dll_call =
    SetShutter int int real real
  | SetReadMode int
  | SetImage int int int int int int
  | SetTriggerMode int
  | SetAcquisitionMode int
  | SetExposureTime real
  | SetTemperature int
  | SetPreAmpGain int
  | SetHSSpeed int int
  | SetVSSpeed int
  | GetNumberPreAmpGains
  | GetPreAmpGain int
  | GetStatus
  | StartAcquisition
  | WaitForAcquisition
  | AbortAcquisition
  | GetAcquiredData int
  | GetOldestImage int

text \<open>
  What one call gives back: the returned status code, and what the library writes
  through a \<^verbatim>\<open>byref\<close> or \<^verbatim>\<open>pointer\<close> argument (an integer, a float, an image buffer).
\<close>

record reply =
  code :: int
  out_int :: int
  out_float :: real
  out_image :: "nat \<Rightarrow> int"

type_synonym dll = "dll_call list \<Rightarrow> dll_call \<Rightarrow> reply"

subsection \<open>The log\<close>

datatype level = Debug | Warning | Error

text \<open>One constructor for each format string of the modelled methods, with its arguments.\<close>

datatype message =
    ShutterDidNotOpen string
  | AcquisitionModeNotCovered
  | CouldntRetrieveImage string
  | ImageLength nat
  | UnableToSetExposure string
  | GainNotAvailable "real list"
  | GainWasntSet string
  | WidthHeight int int
  | Plain string
  | ReadmodeNotSet string
  | InputToFunction int
  | ModeNotSupported string
  | SetImageWentWrong string
  | CanNotCoolBelow int
  | HSSpeedNotSet string
  | VSSpeedNotSet string
  | UnableToRetrieveStatus string

subsection \<open>The state of the camera object\<close>

text \<open>
  The attribute \<^verbatim>\<open>_temperature\<close> holds a Python integer, from the configuration, or
  the \<^verbatim>\<open>c_int\<close> object that \<^verbatim>\<open>_set_temperature\<close> stores.
\<close>

datatype temperature_value = PyInt int | CInt int

text \<open>
  The attributes that the modelled methods read or write. \<open>hbin\<close> to \<open>vend\<close> and
  \<open>cur_image\<close> do not exist before their first assignment.
\<close>

record state =
  exposure :: real
  temperature :: temperature_value
  cooler_on :: bool
  read_mode :: string
  acquisition_mode :: string
  trigger_mode :: string
  preamp_gain_index :: int
  horizontal_readout_index :: int
  vertical_readout_index :: int
  output_amplifier :: int
  gain :: real
  width :: int
  height :: int
  min_temperature :: int
  live :: bool
  shutter :: string
  scans :: int
  acquiring :: bool
  baseline :: int
  hbin :: "int option"
  vbin :: "int option"
  hstart :: "int option"
  hend :: "int option"
  vstart :: "int option"
  vend :: "int option"
  cur_image :: "ndarray option"
  calls :: "dll_call list"
  logged :: "(level \<times> message) list"


subsection \<open>Sequencing\<close>

type_synonym 'a action = "state \<Rightarrow> 'a result \<times> state"

definition ret :: "'a \<Rightarrow> 'a action" where
  "ret a s = (Ret a, s)"

definition raise :: "exn \<Rightarrow> 'a action" where
  "raise e s = (Raise e, s)"

text \<open>Run \<open>m\<close>, then \<open>f\<close> on its value; a raise in \<open>m\<close> ends the whole action.\<close>

definition seq :: "'a action \<Rightarrow> ('a \<Rightarrow> 'b action) \<Rightarrow> 'b action" where
  "seq m f s = (case m s of (Ret a, s') \<Rightarrow> f a s' | (Raise e, s') \<Rightarrow> (Raise e, s'))"

definition read :: "(state \<Rightarrow> 'a) \<Rightarrow> 'a action" where
  "read f s = (Ret (f s), s)"

definition modify :: "(state \<Rightarrow> state) \<Rightarrow> unit action" where
  "modify f s = (Ret (), f s)"

definition say :: "level \<Rightarrow> message \<Rightarrow> unit action" where
  "say l m = modify (\<lambda>s. s\<lparr>logged := logged s @ [(l, m)]\<rparr>)"

text \<open>\<^verbatim>\<open>self.dll.F(args)\<close>: the reply depends on the calls made before; the call is recorded.\<close>

definition invoke :: "dll \<Rightarrow> dll_call \<Rightarrow> reply action" where
  "invoke d c s = (Ret (d (calls s) c), s\<lparr>calls := calls s @ [c]\<rparr>)"

text \<open>\<^verbatim>\<open>ERROR_DICT[error_code]\<close>: a KeyError for a code that is not in the table.\<close>

definition lookup_error :: "int \<Rightarrow> string action" where
  "lookup_error c = (case ERROR_DICT c of None \<Rightarrow> raise KeyError | Some m \<Rightarrow> ret m)"

subsection \<open>Methods that only forward to the library\<close>

definition abort_acquisition :: "dll \<Rightarrow> string action" where
  "abort_acquisition d =
     seq (invoke d AbortAcquisition) (\<lambda>r. lookup_error (code r))"

text \<open>The return value of \<^verbatim>\<open>WaitForAcquisition\<close> is dropped.\<close>

definition start_acquisition :: "dll \<Rightarrow> string action" where
  "start_acquisition d =
     seq (invoke d StartAcquisition) (\<lambda>r.
     seq (read trigger_mode) (\<lambda>tm.
     seq (if tm = ''INTERNAL'' then seq (invoke d WaitForAcquisition) (\<lambda>_. ret ())
          else ret ()) (\<lambda>_.
     lookup_error (code r))))"

definition set_shutter :: "dll \<Rightarrow> int \<Rightarrow> int \<Rightarrow> real \<Rightarrow> real \<Rightarrow> string action" where
  "set_shutter d typ mode closingtime openingtime =
     seq (invoke d (SetShutter (c_int typ) (c_int mode) closingtime openingtime)) (\<lambda>r.
     lookup_error (code r))"



subsection \<open>Setters\<close>

text \<open>
  \<^verbatim>\<open>_set_image\<close>: on success the six arguments are stored and width and height are
  recomputed, the width first; a zero binning raises at its division.
\<close>

definition set_image ::
  "dll \<Rightarrow> int \<Rightarrow> int \<Rightarrow> int \<Rightarrow> int \<Rightarrow> int \<Rightarrow> int \<Rightarrow> string action" where
  "set_image d hb vb hs he vs ve =
     seq (invoke d (SetImage (c_int hb) (c_int vb) (c_int hs) (c_int he) (c_int vs) (c_int ve)))
       (\<lambda>r.
     seq (lookup_error (code r)) (\<lambda>msg.
     seq (if msg = ''DRV_SUCCESS'' then
            seq (modify (\<lambda>s. s\<lparr>hbin := Some (c_int hb), vbin := Some (c_int vb),
                                hstart := Some (c_int hs), hend := Some (c_int he),
                                vstart := Some (c_int vs), vend := Some (c_int ve)\<rparr>)) (\<lambda>_.
            seq (if c_int hb = 0 then raise ZeroDivisionError
                 else modify (\<lambda>s. s\<lparr>width :=
                        int_truediv (c_int he - c_int hs + 1) (c_int hb)\<rparr>)) (\<lambda>_.
            if c_int vb = 0 then raise ZeroDivisionError
            else modify (\<lambda>s. s\<lparr>height :=
                   int_truediv (c_int ve - c_int vs + 1) (c_int vb)\<rparr>)))
          else say Error (SetImageWentWrong msg)) (\<lambda>_.
     lookup_error (code r))))"

text \<open>
  \<^verbatim>\<open>_set_read_mode\<close>: for a string that names no read mode the first \<^verbatim>\<open>if\<close> is
  skipped and \<^verbatim>\<open>ERROR_DICT[error_code]\<close> reads a local variable that was never
  assigned. For \<^verbatim>\<open>'IMAGE'\<close> the sub-region is set after \<^verbatim>\<open>SetReadMode\<close>, whatever
  \<^verbatim>\<open>SetReadMode\<close> returned; the final test looks at the code of \<^verbatim>\<open>SetReadMode\<close>.
\<close>

definition set_read_mode :: "dll \<Rightarrow> string \<Rightarrow> int action" where
  "set_read_mode d mode =
     (case ReadMode mode of
        None \<Rightarrow> raise UnboundLocalError
      | Some n_mode \<Rightarrow>
          seq (invoke d (SetReadMode (c_int n_mode))) (\<lambda>r.
          seq (if mode = ''IMAGE'' then
                 seq (read (\<lambda>s. (width s, height s))) (\<lambda>(w, h).
                 seq (say Debug (WidthHeight w h)) (\<lambda>_.
                 seq (set_image d 1 1 1 w 1 h) (\<lambda>msg.
                 if msg \<noteq> ''DRV_SUCCESS'' then
                   seq (lookup_error (code r)) (\<lambda>t. say Warning (Plain t))
                 else ret ())))
               else ret ()) (\<lambda>_.
          seq (lookup_error (code r)) (\<lambda>t.
          if t \<noteq> ''DRV_SUCCESS'' then
            seq (say Warning (ReadmodeNotSet t)) (\<lambda>_. ret (-1))
          else seq (modify (\<lambda>s. s\<lparr>read_mode := mode\<rparr>)) (\<lambda>_. ret 0)))))"

text \<open>
  \<^verbatim>\<open>_set_trigger_mode\<close> and \<^verbatim>\<open>_set_acquisition_mode\<close>: the \<^verbatim>\<open>else\<close> branch logs and
  sets \<^verbatim>\<open>check_val = -1\<close>, and the next statement reads \<^verbatim>\<open>error_code\<close>, which that
  branch never assigned.
\<close>

definition set_trigger_mode :: "dll \<Rightarrow> string \<Rightarrow> int action" where
  "set_trigger_mode d mode =
     (case TriggerMode mode of
        Some n_mode \<Rightarrow>
          seq (say Debug (InputToFunction (c_int n_mode))) (\<lambda>_.
          seq (invoke d (SetTriggerMode (c_int n_mode))) (\<lambda>r.
          seq (lookup_error (code r)) (\<lambda>t.
          if t \<noteq> ''DRV_SUCCESS'' then ret (-1)
          else seq (modify (\<lambda>s. s\<lparr>trigger_mode := mode\<rparr>)) (\<lambda>_. ret 0))))
      | None \<Rightarrow>
          seq (say Warning (ModeNotSupported mode)) (\<lambda>_. raise UnboundLocalError))"

definition set_acquisition_mode :: "dll \<Rightarrow> string \<Rightarrow> int action" where
  "set_acquisition_mode d mode =
     (case AcquisitionMode mode of
        Some n_mode \<Rightarrow>
          seq (invoke d (SetAcquisitionMode (c_int n_mode))) (\<lambda>r.
          seq (lookup_error (code r)) (\<lambda>t.
          if t \<noteq> ''DRV_SUCCESS'' then ret (-1)
          else seq (modify (\<lambda>s. s\<lparr>acquisition_mode := mode\<rparr>)) (\<lambda>_. ret 0)))
      | None \<Rightarrow>
          seq (say Warning (ModeNotSupported mode)) (\<lambda>_. raise UnboundLocalError))"






subsection \<open>Gain\<close>






subsection \<open>Status\<close>

text \<open>
  \<^verbatim>\<open>_get_status\<close> is defined with the parameter \<^verbatim>\<open>self\<close> alone. \<open>args\<close> are the
  positional arguments of a call; Python raises TypeError for any of them, before
  the body runs.
\<close>

definition get_status :: "dll \<Rightarrow> int list \<Rightarrow> int action" where
  "get_status d args =
     (if args \<noteq> [] then raise TypeError
      else
        seq (invoke d GetStatus) (\<lambda>r.
        seq (lookup_error (code r)) (\<lambda>t.
        if t \<noteq> ''DRV_SUCCESS'' then
          seq (say Error (UnableToRetrieveStatus t)) (\<lambda>_. ret (-1))
        else ret (c_int (out_int r)))))"

text \<open>
  \<^verbatim>\<open>get_ready_state\<close> makes a fresh \<^verbatim>\<open>c_int()\<close>, of value 0, hands it to
  \<^verbatim>\<open>_get_status\<close> as a positional argument and then looks its value up.
\<close>

definition get_ready_state :: "dll \<Rightarrow> bool action" where
  "get_ready_state d =
     seq (get_status d [0]) (\<lambda>_.
     seq (lookup_error 0) (\<lambda>t.
     ret (t = ''DRV_IDLE'')))"

subsection \<open>Acquisition\<close>

text \<open>\<^verbatim>\<open>start_single_acquisition\<close> returns \<^verbatim>\<open>-1\<close>, \<^verbatim>\<open>False\<close> or \<^verbatim>\<open>True\<close>.\<close>

datatype pyval = PInt int | PBool bool

text \<open>
  The four \<^verbatim>\<open>if\<close> statements that open \<^verbatim>\<open>start_single_acquisition\<close>; the values
  the three setters return are dropped.
\<close>

definition prepare_single_acquisition :: "dll \<Rightarrow> unit action" where
  "prepare_single_acquisition d =
     seq (read read_mode) (\<lambda>rm.
     seq (if rm \<noteq> ''IMAGE'' then seq (set_read_mode d ''IMAGE'') (\<lambda>_. ret ())
          else ret ()) (\<lambda>_.
     seq (read acquisition_mode) (\<lambda>am.
     seq (if am \<noteq> ''SINGLE_SCAN'' then
            seq (set_acquisition_mode d ''SINGLE_SCAN'') (\<lambda>_. ret ())
          else ret ()) (\<lambda>_.
     seq (read trigger_mode) (\<lambda>tm.
     seq (if tm \<noteq> ''INTERNAL'' then seq (set_trigger_mode d ''INTERNAL'') (\<lambda>_. ret ())
          else ret ()) (\<lambda>_.
     seq (read shutter) (\<lambda>sh.
     if sh = ''closed'' then
       seq (set_shutter d 0 1 (1 / 10) (1 / 10)) (\<lambda>msg.
       if msg = ''DRV_SUCCESS'' then modify (\<lambda>s. s\<lparr>shutter := ''open''\<rparr>)
       else say Error (ShutterDidNotOpen msg))
     else ret ())))))))"

definition start_single_acquisition :: "dll \<Rightarrow> pyval action" where
  "start_single_acquisition d =
     seq (prepare_single_acquisition d) (\<lambda>_.
     seq (read live) (\<lambda>lv.
     if lv then ret (PInt (-1))
     else
       seq (modify (\<lambda>s. s\<lparr>acquiring := True\<rparr>)) (\<lambda>_.
       seq (start_acquisition d) (\<lambda>msg.
       if msg \<noteq> ''DRV_SUCCESS'' then ret (PBool False)
       else
         seq (modify (\<lambda>s. s\<lparr>acquiring := False\<rparr>)) (\<lambda>_.
         ret (PBool True))))))"

definition stop_acquisition :: "dll \<Rightarrow> bool action" where
  "stop_acquisition d =
     seq (abort_acquisition d) (\<lambda>msg.
     if msg = ''DRV_SUCCESS'' then
       seq (modify (\<lambda>s. s\<lparr>live := False, acquiring := False\<rparr>)) (\<lambda>_. ret True)
     else ret False)"

subsection \<open>Image retrieval\<close>

text \<open>
  The first part of \<^verbatim>\<open>get_acquired_data\<close>, up to \<^verbatim>\<open>dim = int(dim)\<close>: the length of
  the flat buffer. Where no branch assigns \<^verbatim>\<open>dim\<close>, reading it raises.
\<close>

definition buffer_dim :: "int action" where
  "buffer_dim =
     seq (read (\<lambda>s. (width s, height s, scans s, read_mode s, acquisition_mode s)))
       (\<lambda>(w, h, n, rm, am).
     if rm = ''IMAGE'' then
       (if am = ''SINGLE_SCAN'' then ret (w * h)
        else if am = ''KINETICS'' then ret (w * h * n)
        else if am = ''RUN_TILL_ABORT'' then ret (w * h)
        else seq (say Error AcquisitionModeNotCovered) (\<lambda>_. raise UnboundLocalError))
     else if rm = ''SINGLE_TRACK'' \<or> rm = ''FVB'' then
       (if am = ''SINGLE_SCAN'' then ret w
        else if am = ''KINETICS'' then ret (w * n)
        else raise UnboundLocalError)
     else seq (say Error AcquisitionModeNotCovered) (\<lambda>_. raise UnboundLocalError))"

text \<open>
  The rest: \<^verbatim>\<open>np.zeros(dim)\<close> refuses a negative length; the library fills a buffer
  of \<open>dim\<close> \<^verbatim>\<open>c_int\<close>s, which is copied only on success; the flat array is reshaped
  to (height, width), the baseline is subtracted, and the array is stored and
  returned. (The limits of memory are not modelled.)
\<close>

definition get_acquired_data :: "dll \<Rightarrow> ndarray action" where
  "get_acquired_data d =
     seq buffer_dim (\<lambda>dim.
     if dim < 0 then raise ValueError
     else
       seq (read acquisition_mode) (\<lambda>am.
       seq (invoke d (if am = ''RUN_TILL_ABORT'' then GetOldestImage dim
                      else GetAcquiredData dim)) (\<lambda>r.
       seq (lookup_error (code r)) (\<lambda>t.
       seq (if t \<noteq> ''DRV_SUCCESS'' then
              seq (say Warning (CouldntRetrieveImage t)) (\<lambda>_.
              ret (replicate (nat dim) 0))
            else
              seq (say Debug (ImageLength (nat dim))) (\<lambda>_.
              ret (map (\<lambda>i. c_int (out_image r i)) [0..<nat dim]))) (\<lambda>image_array.
       seq (read (\<lambda>s. (height s, width s, baseline s))) (\<lambda>(h, w, b).
       (case np_reshape image_array h w of
          Raise e \<Rightarrow> raise e
        | Ret a \<Rightarrow>
            seq (modify (\<lambda>s. s\<lparr>cur_image :=
                   Some (a\<lparr>data := map (\<lambda>x. x - b) (data a)\<rparr>)\<rparr>)) (\<lambda>_.
            ret (a\<lparr>data := map (\<lambda>x. x - b) (data a)\<rparr>)))))))))"

subsection \<open>Observations and sample inputs\<close>

text \<open>The library calls made between two states of one run.\<close>

definition calls_since :: "state \<Rightarrow> state \<Rightarrow> dll_call list" where
  "calls_since s s' = drop (length (calls s)) (calls s')"

definition is_raise :: "'a result \<Rightarrow> bool" where
  "is_raise r = (case r of Raise _ \<Rightarrow> True | Ret _ \<Rightarrow> False)"


text \<open>
  From \<open>s\<close> to \<open>s'\<close> the two acquisition flags are as they were and the library was
  asked neither to start an acquisition nor to wait for one.
\<close>

definition start_free :: "state \<Rightarrow> state \<Rightarrow> bool" where
  "start_free s s' =
     (live s' = live s \<and> acquiring s' = acquiring s \<and>
      take (length (calls s)) (calls s') = calls s \<and>
      StartAcquisition \<notin> set (calls_since s s') \<and>
      WaitForAcquisition \<notin> set (calls_since s s'))"

text \<open>
  A run \<open>p\<close> from the state \<open>s\<close> has made calls of the list \<open>cs\<close>, in its order:
  all of them if it returned, and at least the first of them if it raised.
\<close>

definition traced :: "dll_call list \<Rightarrow> state \<Rightarrow> 'a result \<times> state \<Rightarrow> bool" where
  "traced cs s p =
     (\<exists>made rest. calls (snd p) = calls s @ made \<and> cs = made @ rest \<and>
        (is_raise (fst p) \<longrightarrow> made \<noteq> []) \<and> (\<not> is_raise (fst p) \<longrightarrow> rest = []))"

text \<open>A library all of whose status codes are in the table, as the vendor documents.\<close>

definition known_codes :: "dll \<Rightarrow> bool" where
  "known_codes d = (\<forall>h c. code (d h c) \<in> dom ERROR_DICT)"

text \<open>An action that is start-free from every state, and returns when the codes are known.\<close>

definition quiet :: "dll \<Rightarrow> 'a action \<Rightarrow> bool" where
  "quiet d m =
     (\<forall>s. start_free s (snd (m s)) \<and> (known_codes d \<longrightarrow> \<not> is_raise (fst (m s))))"

text \<open>
  The attributes as the class body sets them, with the defaults of the configuration
  options (lines 126 to 164), before \<^verbatim>\<open>on_activate\<close> and with nothing called yet.
\<close>

definition default_state :: state where
  "default_state =
     \<lparr>exposure = 17 / 100, temperature = PyInt 0, cooler_on = True, read_mode = ''IMAGE'',
      acquisition_mode = ''SINGLE_SCAN'', trigger_mode = ''INTERNAL'',
      preamp_gain_index = 2, horizontal_readout_index = 0, vertical_readout_index = 4,
      output_amplifier = 1, gain = 0, width = 0, height = 0, min_temperature = - 100,
      live = False, shutter = ''closed'', scans = 1, acquiring = False, baseline = 200,
      hbin = None, vbin = None, hstart = None, hend = None, vstart = None, vend = None,
      cur_image = None, calls = [], logged = []\<rparr>"

text \<open>
  A library for the sample runs: the status code of each call is given by \<open>codes\<close>;
  it reports three preamplifier gains, 1, 2.4 and 5.1, and every sample of an image
  is 300.
\<close>

definition sample_dll :: "(dll_call \<Rightarrow> int) \<Rightarrow> dll" where
  "sample_dll codes h c =
     \<lparr>code = codes c, out_int = 3,
      out_float = (case c of
                     GetPreAmpGain i \<Rightarrow> (if i = 0 then 1 else if i = 1 then 24 / 10 else 51 / 10)
                   | _ \<Rightarrow> 0),
      out_image = (\<lambda>_. 300)\<rparr>"

section \<open>Properties\<close>

subsection \<open>Status codes and machine integers\<close>

lemma ERROR_DICT_success_iff: "ERROR_DICT c = Some ''DRV_SUCCESS'' \<longleftrightarrow> c = 20002"
  by (simp add: ERROR_DICT_def)

lemma c_int_id: "- (2 ^ 31) \<le> x \<Longrightarrow> x < 2 ^ 31 \<Longrightarrow> c_int x = x"
  unfolding c_int_def by (simp add: sint_sbintrunc' signed_take_bit_int_eq_self)


lemmas action_defs =
  seq_def ret_def raise_def read_def modify_def say_def invoke_def lookup_error_def

subsection \<open>Stopping an acquisition\<close>

text \<open>
  Claim C7. \<^verbatim>\<open>stop_acquisition\<close> sends one \<^verbatim>\<open>AbortAcquisition\<close>. If the library
  answers with the success code 20002, both flags \<open>live\<close> and \<open>acquiring\<close> are
  cleared and \<^verbatim>\<open>True\<close> is returned. For any other code nothing but the trace of
  calls changes, so both flags keep their values, and \<^verbatim>\<open>True\<close> is not returned; the
  result is \<^verbatim>\<open>False\<close> whenever the code is one of the table. In particular, with both
  flags clear before the call, both are clear after it, whatever the library answers.
\<close>

theorem stop_acquisition_flags:
  "(code (d (calls s) AbortAcquisition) = 20002 \<longrightarrow>
      stop_acquisition d s =
        (Ret True,
         s\<lparr>calls := calls s @ [AbortAcquisition], live := False, acquiring := False\<rparr>)) \<and>
   (code (d (calls s) AbortAcquisition) \<noteq> 20002 \<longrightarrow>
      fst (stop_acquisition d s) \<noteq> Ret True \<and>
      snd (stop_acquisition d s) = s\<lparr>calls := calls s @ [AbortAcquisition]\<rparr> \<and>
      live (snd (stop_acquisition d s)) = live s \<and>
      acquiring (snd (stop_acquisition d s)) = acquiring s) \<and>
   (code (d (calls s) AbortAcquisition) \<noteq> 20002 \<and>
    code (d (calls s) AbortAcquisition) \<in> dom ERROR_DICT \<longrightarrow>
      fst (stop_acquisition d s) = Ret False) \<and>
   (\<not> live s \<and> \<not> acquiring s \<longrightarrow>
      live (snd (stop_acquisition d s)) = live s \<and>
      acquiring (snd (stop_acquisition d s)) = acquiring s)"
proof -
  let ?c = "code (d (calls s) AbortAcquisition)"
  let ?s1 = "s\<lparr>calls := calls s @ [AbortAcquisition]\<rparr>"
  have run: "stop_acquisition d s =
      (case ERROR_DICT ?c of
         None \<Rightarrow> (Raise KeyError, ?s1)
       | Some t \<Rightarrow> if t = ''DRV_SUCCESS''
                   then (Ret True, ?s1\<lparr>live := False, acquiring := False\<rparr>)
                   else (Ret False, ?s1))"
    by (simp add: stop_acquisition_def abort_acquisition_def seq_def invoke_def
        lookup_error_def ret_def raise_def modify_def split: option.splits)
  show ?thesis
    using ERROR_DICT_success_iff [of ?c]
    by (auto simp: run split: option.splits)
qed

text \<open>
  Sample runs: an abort that succeeds while acquiring; one that the library refuses
  with 20072 while acquiring; one that it refuses while idle.
\<close>

theorem stop_acquisition_flags_witness:
  "stop_acquisition (sample_dll (\<lambda>_. 20002)) (default_state\<lparr>acquiring := True\<rparr>) =
     (Ret True,
      default_state\<lparr>acquiring := True, calls := [AbortAcquisition],
                     live := False, acquiring := False\<rparr>) \<and>
   fst (stop_acquisition (sample_dll (\<lambda>_. 20072)) (default_state\<lparr>acquiring := True\<rparr>)) =
     Ret False \<and>
   acquiring (snd (stop_acquisition (sample_dll (\<lambda>_. 20072))
     (default_state\<lparr>acquiring := True\<rparr>))) \<and>
   \<not> live (snd (stop_acquisition (sample_dll (\<lambda>_. 20072)) default_state)) \<and>
   \<not> acquiring (snd (stop_acquisition (sample_dll (\<lambda>_. 20072)) default_state))"
  using stop_acquisition_flags [of "sample_dll (\<lambda>_. 20002)" "default_state\<lparr>acquiring := True\<rparr>"]
    stop_acquisition_flags [of "sample_dll (\<lambda>_. 20072)" "default_state\<lparr>acquiring := True\<rparr>"]
    stop_acquisition_flags [of "sample_dll (\<lambda>_. 20072)" "default_state"]
  by (simp add: sample_dll_def default_state_def ERROR_DICT_def)

subsection \<open>The readiness query\<close>

text \<open>Called as its signature allows, \<^verbatim>\<open>_get_status\<close> does ask the library.\<close>

lemma get_status_no_args_calls: "calls (snd (get_status d [] s)) = calls s @ [GetStatus]"
  by (simp add: get_status_def action_defs split: option.splits)

text \<open>
  Claim C9. In every state and for every library, \<^verbatim>\<open>get_ready_state\<close> raises
  TypeError: it calls \<^verbatim>\<open>_get_status\<close> with one positional argument, which the
  signature of \<^verbatim>\<open>_get_status\<close> does not take. Nothing is returned, the library is
  not called and the state is as before.
\<close>

theorem get_ready_state_raises: "get_ready_state d s = (Raise TypeError, s)"
  by (simp add: get_ready_state_def get_status_def seq_def raise_def)

subsection \<open>Starting a single acquisition\<close>

lemma start_acquisition_acquiring: "acquiring (snd (start_acquisition d s)) = acquiring s"
  by (simp add: start_acquisition_def action_defs split: option.splits)

lemma start_single_tail:
  "start_single_acquisition d s =
     (case prepare_single_acquisition d s of
        (Raise e, s1) \<Rightarrow> (Raise e, s1)
      | (Ret _, s1) \<Rightarrow>
          if live s1 then (Ret (PInt (-1)), s1)
          else (case start_acquisition d (s1\<lparr>acquiring := True\<rparr>) of
                  (Raise e, s2) \<Rightarrow> (Raise e, s2)
                | (Ret msg, s2) \<Rightarrow>
                    if msg \<noteq> ''DRV_SUCCESS'' then (Ret (PBool False), s2)
                    else (Ret (PBool True), s2\<lparr>acquiring := False\<rparr>)))"
  by (simp add: start_single_acquisition_def seq_def ret_def read_def modify_def
      split: prod.splits result.splits)

text \<open>
  Claim C4, as the code has it. Whenever \<^verbatim>\<open>start_single_acquisition\<close> reports the
  start as failed (it returns \<^verbatim>\<open>False\<close>), the flag \<open>acquiring\<close> is set afterwards:
  the early \<^verbatim>\<open>return False\<close> skips the statement that clears it. Only when it
  returns \<^verbatim>\<open>True\<close> is the flag cleared.
\<close>

theorem failed_start_leaves_acquiring_set:
  "(fst (start_single_acquisition d s) = Ret (PBool False) \<longrightarrow>
      acquiring (snd (start_single_acquisition d s))) \<and>
   (fst (start_single_acquisition d s) = Ret (PBool True) \<longrightarrow>
      \<not> acquiring (snd (start_single_acquisition d s)))"
proof -
  obtain r1 s1 where p: "prepare_single_acquisition d s = (r1, s1)"
    by (cases "prepare_single_acquisition d s")
  obtain r2 s2 where q: "start_acquisition d (s1\<lparr>acquiring := True\<rparr>) = (r2, s2)"
    by (cases "start_acquisition d (s1\<lparr>acquiring := True\<rparr>)")
  have "acquiring s2"
    using start_acquisition_acquiring [of d "s1\<lparr>acquiring := True\<rparr>"] by (simp add: q)
  then show ?thesis
    by (simp add: start_single_tail p q split: result.splits)
qed

text \<open>
  Sample runs from the default attributes (not live, not acquiring): the library
  answers \<^verbatim>\<open>StartAcquisition\<close> with 20072 (DRV_ACQUIRING), and the flag stays set;
  it answers with success, and the flag is cleared.
\<close>

theorem failed_start_leaves_acquiring_set_witness:
  "fst (start_single_acquisition
          (sample_dll (\<lambda>c. if c = StartAcquisition then 20072 else 20002)) default_state) =
     Ret (PBool False) \<and>
   acquiring (snd (start_single_acquisition
          (sample_dll (\<lambda>c. if c = StartAcquisition then 20072 else 20002)) default_state)) \<and>
   fst (start_single_acquisition (sample_dll (\<lambda>_. 20002)) default_state) = Ret (PBool True) \<and>
   \<not> acquiring (snd (start_single_acquisition (sample_dll (\<lambda>_. 20002)) default_state))"
  using failed_start_leaves_acquiring_set
     [of "sample_dll (\<lambda>c. if c = StartAcquisition then 20072 else 20002)" default_state]
    failed_start_leaves_acquiring_set [of "sample_dll (\<lambda>_. 20002)" default_state]
  by (simp add: start_single_acquisition_def prepare_single_acquisition_def
      start_acquisition_def set_shutter_def action_defs
      sample_dll_def default_state_def ERROR_DICT_def c_int_def)

subsection \<open>Image retrieval\<close>

lemma buffer_dim_image:
  "read_mode s = ''IMAGE'' \<Longrightarrow>
   acquisition_mode s = ''SINGLE_SCAN'' \<or> acquisition_mode s = ''RUN_TILL_ABORT'' \<Longrightarrow>
   buffer_dim s = (Ret (width s * height s), s)"
  by (auto simp: buffer_dim_def action_defs)

lemma buffer_dim_image_kinetics:
  "read_mode s = ''IMAGE'' \<Longrightarrow> acquisition_mode s = ''KINETICS'' \<Longrightarrow>
   buffer_dim s = (Ret (width s * height s * scans s), s)"
  by (simp add: buffer_dim_def action_defs)

lemma buffer_dim_track:
  "read_mode s = ''SINGLE_TRACK'' \<or> read_mode s = ''FVB'' \<Longrightarrow>
   acquisition_mode s = ''SINGLE_SCAN'' \<Longrightarrow>
   buffer_dim s = (Ret (width s), s)"
  by (auto simp: buffer_dim_def action_defs)

lemma buffer_dim_track_kinetics:
  "read_mode s = ''SINGLE_TRACK'' \<or> read_mode s = ''FVB'' \<Longrightarrow>
   acquisition_mode s = ''KINETICS'' \<Longrightarrow>
   buffer_dim s = (Ret (width s * scans s), s)"
  by (auto simp: buffer_dim_def action_defs)

lemma buffer_dim_track_other:
  "read_mode s = ''SINGLE_TRACK'' \<or> read_mode s = ''FVB'' \<Longrightarrow>
   acquisition_mode s \<noteq> ''SINGLE_SCAN'' \<Longrightarrow> acquisition_mode s \<noteq> ''KINETICS'' \<Longrightarrow>
   buffer_dim s = (Raise UnboundLocalError, s)"
  by (auto simp: buffer_dim_def action_defs)

lemma get_acquired_data_run:
  assumes "buffer_dim s = (Ret n, s)" and "0 \<le> n"
  shows "get_acquired_data d s =
     (let c = (if acquisition_mode s = ''RUN_TILL_ABORT'' then GetOldestImage n
               else GetAcquiredData n);
          r = d (calls s) c;
          s1 = s\<lparr>calls := calls s @ [c]\<rparr>
      in case ERROR_DICT (code r) of
           None \<Rightarrow> (Raise KeyError, s1)
         | Some t \<Rightarrow>
             (let image_array =
                    (if t \<noteq> ''DRV_SUCCESS'' then replicate (nat n) 0
                     else map (\<lambda>i. c_int (out_image r i)) [0..<nat n]);
                  s2 = s1\<lparr>logged := logged s @
                         [if t \<noteq> ''DRV_SUCCESS'' then (Warning, CouldntRetrieveImage t)
                          else (Debug, ImageLength (nat n))]\<rparr>
              in case np_reshape image_array (height s) (width s) of
                   Raise e \<Rightarrow> (Raise e, s2)
                 | Ret a \<Rightarrow>
                     (Ret (a\<lparr>data := map (\<lambda>x. x - baseline s) (data a)\<rparr>),
                      s2\<lparr>cur_image := Some (a\<lparr>data := map (\<lambda>x. x - baseline s) (data a)\<rparr>)\<rparr>)))"
  using assms
  by (simp add: get_acquired_data_def seq_def [of buffer_dim] Let_def)
     (simp add: action_defs split: option.splits result.splits)

lemma get_acquired_data_call:
  assumes "buffer_dim s = (Ret n, s)" and "0 \<le> n"
  shows "calls (snd (get_acquired_data d s)) =
     calls s @ [if acquisition_mode s = ''RUN_TILL_ABORT'' then GetOldestImage n
                else GetAcquiredData n]"
  by (simp add: get_acquired_data_run [OF assms] Let_def split: option.splits result.splits)

lemma np_reshape_mismatch:
  "0 \<le> h \<Longrightarrow> 0 \<le> w \<Longrightarrow> h * w \<noteq> int (length a) \<Longrightarrow> np_reshape a h w = Raise ValueError"
  by (simp add: np_reshape_def)

lemma np_reshape_match:
  "0 \<le> h \<Longrightarrow> 0 \<le> w \<Longrightarrow> h * w = int (length a) \<Longrightarrow>
   np_reshape a h w = Ret \<lparr>shape = (nat h, nat w), data = a\<rparr>"
  by (simp add: np_reshape_def)

lemma get_acquired_data_negative:
  "buffer_dim s = (Ret n, s) \<Longrightarrow> n < 0 \<Longrightarrow> get_acquired_data d s = (Raise ValueError, s)"
  by (simp add: get_acquired_data_def seq_def [of buffer_dim] raise_def)

lemma get_acquired_data_no_dim:
  "buffer_dim s = (Raise e, s') \<Longrightarrow> get_acquired_data d s = (Raise e, s')"
  by (simp add: get_acquired_data_def seq_def [of buffer_dim])

text \<open>
  Claim C8. With a detector of 512 by 512 pixels the length of the flat buffer,
  computed before the image is read, is 262144 for the read mode IMAGE with
  SINGLE_SCAN or RUN_TILL_ABORT, 1048576 for IMAGE with KINETICS and 4 scans, 512
  for SINGLE_TRACK or FVB with SINGLE_SCAN, and 512 times the number of scans for
  SINGLE_TRACK or FVB with KINETICS. That length is the one handed to the library.
\<close>

theorem buffer_length_512:
  assumes "width s = 512" and "height s = 512"
  shows
  "(read_mode s = ''IMAGE'' \<and> acquisition_mode s = ''SINGLE_SCAN'' \<longrightarrow>
      buffer_dim s = (Ret 262144, s) \<and>
      calls_since s (snd (get_acquired_data d s)) = [GetAcquiredData 262144]) \<and>
   (read_mode s = ''IMAGE'' \<and> acquisition_mode s = ''RUN_TILL_ABORT'' \<longrightarrow>
      buffer_dim s = (Ret 262144, s) \<and>
      calls_since s (snd (get_acquired_data d s)) = [GetOldestImage 262144]) \<and>
   (read_mode s = ''IMAGE'' \<and> acquisition_mode s = ''KINETICS'' \<and> scans s = 4 \<longrightarrow>
      buffer_dim s = (Ret 1048576, s) \<and>
      calls_since s (snd (get_acquired_data d s)) = [GetAcquiredData 1048576]) \<and>
   ((read_mode s = ''SINGLE_TRACK'' \<or> read_mode s = ''FVB'') \<and>
    acquisition_mode s = ''SINGLE_SCAN'' \<longrightarrow>
      buffer_dim s = (Ret 512, s) \<and>
      calls_since s (snd (get_acquired_data d s)) = [GetAcquiredData 512]) \<and>
   ((read_mode s = ''SINGLE_TRACK'' \<or> read_mode s = ''FVB'') \<and>
    acquisition_mode s = ''KINETICS'' \<longrightarrow>
      buffer_dim s = (Ret (512 * scans s), s) \<and>
      (0 \<le> scans s \<longrightarrow>
         calls_since s (snd (get_acquired_data d s)) = [GetAcquiredData (512 * scans s)]))"
proof -
  have a: "read_mode s = ''IMAGE'' \<Longrightarrow> acquisition_mode s = ''SINGLE_SCAN'' \<Longrightarrow>
      buffer_dim s = (Ret 262144, s)"
    using buffer_dim_image [of s] assms by simp
  have b: "read_mode s = ''IMAGE'' \<Longrightarrow> acquisition_mode s = ''RUN_TILL_ABORT'' \<Longrightarrow>
      buffer_dim s = (Ret 262144, s)"
    using buffer_dim_image [of s] assms by simp
  have c: "read_mode s = ''IMAGE'' \<Longrightarrow> acquisition_mode s = ''KINETICS'' \<Longrightarrow> scans s = 4 \<Longrightarrow>
      buffer_dim s = (Ret 1048576, s)"
    using buffer_dim_image_kinetics [of s] assms by simp
  have e: "read_mode s = ''SINGLE_TRACK'' \<or> read_mode s = ''FVB'' \<Longrightarrow>
      acquisition_mode s = ''SINGLE_SCAN'' \<Longrightarrow> buffer_dim s = (Ret 512, s)"
    using buffer_dim_track [of s] assms by simp
  have f: "read_mode s = ''SINGLE_TRACK'' \<or> read_mode s = ''FVB'' \<Longrightarrow>
      acquisition_mode s = ''KINETICS'' \<Longrightarrow> buffer_dim s = (Ret (512 * scans s), s)"
    using buffer_dim_track_kinetics [of s] assms by simp
  show ?thesis
    using a b c e f
    by (auto simp: calls_since_def get_acquired_data_call)
qed

text \<open>Sample states for the five cases.\<close>

theorem buffer_length_512_witness:
  "buffer_dim (default_state\<lparr>width := 512, height := 512\<rparr>) =
     (Ret 262144, default_state\<lparr>width := 512, height := 512\<rparr>) \<and>
   calls_since (default_state\<lparr>width := 512, height := 512\<rparr>)
     (snd (get_acquired_data (sample_dll (\<lambda>_. 20002))
        (default_state\<lparr>width := 512, height := 512\<rparr>))) = [GetAcquiredData 262144] \<and>
   calls_since (default_state\<lparr>width := 512, height := 512, acquisition_mode := ''RUN_TILL_ABORT''\<rparr>)
     (snd (get_acquired_data (sample_dll (\<lambda>_. 20002))
        (default_state\<lparr>width := 512, height := 512, acquisition_mode := ''RUN_TILL_ABORT''\<rparr>))) =
     [GetOldestImage 262144] \<and>
   fst (buffer_dim (default_state\<lparr>width := 512, height := 512,
          acquisition_mode := ''KINETICS'', scans := 4\<rparr>)) = Ret 1048576 \<and>
   fst (buffer_dim (default_state\<lparr>width := 512, height := 512,
          read_mode := ''SINGLE_TRACK''\<rparr>)) = Ret 512 \<and>
   fst (buffer_dim (default_state\<lparr>width := 512, height := 512, read_mode := ''FVB'',
          acquisition_mode := ''KINETICS'', scans := 3\<rparr>)) = Ret 1536"
  using buffer_length_512 [of "default_state\<lparr>width := 512, height := 512\<rparr>"
      "sample_dll (\<lambda>_. 20002)"]
    buffer_length_512 [of "default_state\<lparr>width := 512, height := 512,
      acquisition_mode := ''RUN_TILL_ABORT''\<rparr>" "sample_dll (\<lambda>_. 20002)"]
    buffer_length_512 [of "default_state\<lparr>width := 512, height := 512,
          acquisition_mode := ''KINETICS'', scans := 4\<rparr>" "sample_dll (\<lambda>_. 20002)"]
    buffer_length_512 [of "default_state\<lparr>width := 512, height := 512,
          read_mode := ''SINGLE_TRACK''\<rparr>" "sample_dll (\<lambda>_. 20002)"]
    buffer_length_512 [of "default_state\<lparr>width := 512, height := 512, read_mode := ''FVB'',
          acquisition_mode := ''KINETICS'', scans := 3\<rparr>" "sample_dll (\<lambda>_. 20002)"]
  by (simp add: default_state_def)

text \<open>
  Claim C6, as the code has it. In the read mode IMAGE with SINGLE_SCAN or
  RUN_TILL_ABORT, when the image-read call returns a status of the table other than
  success, \<^verbatim>\<open>get_acquired_data\<close> logs one warning and returns an array of the shape
  (height, width) all of whose samples are zero minus the baseline, as if it were a
  frame; the same array is stored in \<open>cur_image\<close>. No failure reaches the caller.
\<close>

theorem failed_retrieval_returns_baseline_frame:
  assumes "read_mode s = ''IMAGE''"
    and "acquisition_mode s = ''SINGLE_SCAN'' \<or> acquisition_mode s = ''RUN_TILL_ABORT''"
    and "0 \<le> width s" and "0 \<le> height s"
    and "c = (if acquisition_mode s = ''RUN_TILL_ABORT'' then GetOldestImage (width s * height s)
              else GetAcquiredData (width s * height s))"
    and "ERROR_DICT (code (d (calls s) c)) = Some t" and "t \<noteq> ''DRV_SUCCESS''"
  shows "get_acquired_data d s =
     (Ret \<lparr>shape = (nat (height s), nat (width s)),
           data = replicate (nat (width s * height s)) (- baseline s)\<rparr>,
      s\<lparr>calls := calls s @ [c],
        logged := logged s @ [(Warning, CouldntRetrieveImage t)],
        cur_image := Some \<lparr>shape = (nat (height s), nat (width s)),
           data = replicate (nat (width s * height s)) (- baseline s)\<rparr>\<rparr>)"
proof -
  have dim: "buffer_dim s = (Ret (width s * height s), s)"
    using assms(1,2) by (rule buffer_dim_image)
  have nn: "0 \<le> width s * height s"
    using assms(3,4) by simp
  have shape: "np_reshape (replicate (nat (width s * height s)) 0) (height s) (width s) =
      Ret \<lparr>shape = (nat (height s), nat (width s)),
           data = replicate (nat (width s * height s)) 0\<rparr>"
    using assms(3,4) nn by (intro np_reshape_match) (simp_all add: mult.commute)
  show ?thesis
    using assms(5,6,7) shape
    by (simp add: get_acquired_data_run [OF dim nn] Let_def)
qed

text \<open>
  A sample run on a detector of 2 by 2 pixels: the library answers 20024
  (DRV_NO_NEW_DATA) and the caller gets four samples of -200.
\<close>

theorem failed_retrieval_returns_baseline_frame_witness:
  "get_acquired_data (sample_dll (\<lambda>_. 20024)) (default_state\<lparr>width := 2, height := 2\<rparr>) =
     (Ret \<lparr>shape = (2, 2), data = [- 200, - 200, - 200, - 200]\<rparr>,
      default_state\<lparr>width := 2, height := 2, calls := [GetAcquiredData 4],
        logged := [(Warning, CouldntRetrieveImage ''DRV_NO_NEW_DATA'')],
        cur_image := Some \<lparr>shape = (2, 2), data = [- 200, - 200, - 200, - 200]\<rparr>\<rparr>)"
  using failed_retrieval_returns_baseline_frame
    [of "default_state\<lparr>width := 2, height := 2\<rparr>" "GetAcquiredData 4"
        "sample_dll (\<lambda>_. 20024)" "''DRV_NO_NEW_DATA''"]
  by (simp add: default_state_def sample_dll_def ERROR_DICT_def numeral_eq_Suc)

text \<open>
  Claim C10 does not hold as stated: in SINGLE_TRACK with KINETICS, a height of 2
  and 2 scans, the buffer has width times scans samples, which is what the shape
  (height, width) needs, and a frame is returned.
\<close>

theorem track_kinetics_returns_frame:
  "1 < height (default_state\<lparr>read_mode := ''SINGLE_TRACK'', acquisition_mode := ''KINETICS'',
        width := 3, height := 2, scans := 2\<rparr>) \<and>
   fst (get_acquired_data (sample_dll (\<lambda>_. 20002))
     (default_state\<lparr>read_mode := ''SINGLE_TRACK'', acquisition_mode := ''KINETICS'',
        width := 3, height := 2, scans := 2\<rparr>)) =
     Ret \<lparr>shape = (2, 3), data = [100, 100, 100, 100, 100, 100]\<rparr>"
proof -
  let ?s = "default_state\<lparr>read_mode := ''SINGLE_TRACK'', acquisition_mode := ''KINETICS'',
        width := 3, height := 2, scans := 2\<rparr>"
  have dim: "buffer_dim ?s = (Ret 6, ?s)"
    using buffer_dim_track_kinetics [of ?s] by (simp add: default_state_def)
  have "[0..<nat 6] = [0, 1, 2, 3, 4, 5]"
    by (simp add: upt_rec)
  then show ?thesis
    using get_acquired_data_run [OF dim, of "sample_dll (\<lambda>_. 20002)"]
    by (simp add: default_state_def sample_dll_def ERROR_DICT_def np_reshape_def c_int_def)
qed

text \<open>
  Claim C10, amended. In the read mode SINGLE_TRACK or FVB, with a height above 1, a
  width of at least 1 and, when the acquisition mode is KINETICS, a number of scans
  other than the height, \<^verbatim>\<open>get_acquired_data\<close> never returns: it raises. With
  SINGLE_SCAN and a status code of the table, the library is asked for width samples
  and the raise is the ValueError of the reshape to (height, width).
\<close>

theorem track_modes_reshape_fails:
  assumes "read_mode s = ''SINGLE_TRACK'' \<or> read_mode s = ''FVB''"
    and "1 < height s" and "1 \<le> width s"
    and "acquisition_mode s \<noteq> ''KINETICS'' \<or> scans s \<noteq> height s"
  shows "is_raise (fst (get_acquired_data d s)) \<and>
    (acquisition_mode s = ''SINGLE_SCAN'' \<and>
     code (d (calls s) (GetAcquiredData (width s))) \<in> dom ERROR_DICT \<longrightarrow>
       fst (get_acquired_data d s) = Raise ValueError \<and>
       calls_since s (snd (get_acquired_data d s)) = [GetAcquiredData (width s)])"
proof -
  have bad: "is_raise (fst (get_acquired_data d s)) \<and>
      calls_since s (snd (get_acquired_data d s)) = [GetAcquiredData n] \<and>
      (code (d (calls s) (GetAcquiredData n)) \<in> dom ERROR_DICT \<longrightarrow>
         fst (get_acquired_data d s) = Raise ValueError)"
    if dim: "buffer_dim s = (Ret n, s)" and nn: "0 \<le> n" and ne: "height s * width s \<noteq> n"
      and am: "acquisition_mode s \<noteq> ''RUN_TILL_ABORT''" for n
  proof -
    have "np_reshape a (height s) (width s) = Raise ValueError" if "length a = nat n" for a
      using that assms(2,3) nn ne by (intro np_reshape_mismatch) simp_all
    then show ?thesis
      using am
      by (auto simp: get_acquired_data_run [OF dim nn] Let_def is_raise_def calls_since_def
          split: option.splits)
  qed
  consider (single) "acquisition_mode s = ''SINGLE_SCAN''"
    | (kinetics) "acquisition_mode s = ''KINETICS''"
    | (other) "acquisition_mode s \<noteq> ''SINGLE_SCAN''" "acquisition_mode s \<noteq> ''KINETICS''"
    by blast
  then show ?thesis
  proof cases
    case single
    have dim: "buffer_dim s = (Ret (width s), s)"
      using assms(1) single by (rule buffer_dim_track)
    have "height s * width s \<noteq> width s"
      using assms(2,3) by simp
    then show ?thesis
      using bad [OF dim] assms(3) single by simp
  next
    case kinetics
    have dim: "buffer_dim s = (Ret (width s * scans s), s)"
      using assms(1) kinetics by (rule buffer_dim_track_kinetics)
    show ?thesis
    proof (cases "width s * scans s < 0")
      case True
      then show ?thesis
        using get_acquired_data_negative [OF dim, of d] kinetics by (simp add: is_raise_def)
    next
      case False
      have "height s * width s \<noteq> width s * scans s"
        using assms(3,4) kinetics by simp
      then show ?thesis
        using bad [OF dim] False kinetics by simp
    qed
  next
    case other
    then show ?thesis
      using get_acquired_data_no_dim [OF buffer_dim_track_other [OF assms(1) other], of d]
      by (simp add: is_raise_def)
  qed
qed

text \<open>A sample run: FVB and SINGLE_SCAN on a detector of 512 by 512 pixels.\<close>

theorem track_modes_reshape_fails_witness:
  "is_raise (fst (get_acquired_data (sample_dll (\<lambda>_. 20002))
      (default_state\<lparr>read_mode := ''FVB'', width := 512, height := 512\<rparr>))) \<and>
   fst (get_acquired_data (sample_dll (\<lambda>_. 20002))
      (default_state\<lparr>read_mode := ''FVB'', width := 512, height := 512\<rparr>)) = Raise ValueError \<and>
   calls_since (default_state\<lparr>read_mode := ''FVB'', width := 512, height := 512\<rparr>)
     (snd (get_acquired_data (sample_dll (\<lambda>_. 20002))
      (default_state\<lparr>read_mode := ''FVB'', width := 512, height := 512\<rparr>))) =
     [GetAcquiredData 512]"
  using track_modes_reshape_fails
    [of "default_state\<lparr>read_mode := ''FVB'', width := 512, height := 512\<rparr>"
        "sample_dll (\<lambda>_. 20002)"]
  by (simp add: default_state_def sample_dll_def ERROR_DICT_def is_raise_def)

subsection \<open>Gain\<close>













subsection \<open>Switching the read mode to IMAGE\<close>

lemma c_int_1 [simp]: "c_int 1 = 1"
  by (simp add: c_int_def)

lemma c_int_4: "c_int 4 = 4"
  by (simp add: c_int_def)

lemma int_truediv_1: "int_truediv a 1 = a"
  by (simp add: int_truediv_def mult_sgn_abs)

lemma set_image_full_run:
  "set_image d 1 1 1 w 1 h s =
     (let c = SetImage 1 1 1 (c_int w) 1 (c_int h);
          s1 = s\<lparr>calls := calls s @ [c]\<rparr>
      in case ERROR_DICT (code (d (calls s) c)) of
           None \<Rightarrow> (Raise KeyError, s1)
         | Some msg \<Rightarrow>
             if msg = ''DRV_SUCCESS'' then
               (Ret msg, s1\<lparr>hbin := Some 1, vbin := Some 1, hstart := Some 1,
                  hend := Some (c_int w), vstart := Some 1, vend := Some (c_int h),
                  width := c_int w, height := c_int h\<rparr>)
             else (Ret msg, s1\<lparr>logged := logged s @ [(Error, SetImageWentWrong msg)]\<rparr>))"
  by (simp add: set_image_def action_defs int_truediv_1 Let_def split: option.splits)

lemma set_read_mode_image_run:
  "set_read_mode d ''IMAGE'' s =
     (let c1 = SetReadMode 4;
          r1 = code (d (calls s) c1);
          s1 = s\<lparr>calls := calls s @ [c1],
                 logged := logged s @ [(Debug, WidthHeight (width s) (height s))]\<rparr>
      in case set_image d 1 1 1 (width s) 1 (height s) s1 of
           (Raise e, s2) \<Rightarrow> (Raise e, s2)
         | (Ret msg, s2) \<Rightarrow>
             (case ERROR_DICT r1 of
                None \<Rightarrow> (Raise KeyError, s2)
              | Some t \<Rightarrow>
                  (let s3 = (if msg \<noteq> ''DRV_SUCCESS''
                             then s2\<lparr>logged := logged s2 @ [(Warning, Plain t)]\<rparr> else s2)
                   in if t \<noteq> ''DRV_SUCCESS''
                      then (Ret (-1), s3\<lparr>logged := logged s3 @ [(Warning, ReadmodeNotSet t)]\<rparr>)
                      else (Ret 0, s3\<lparr>read_mode := ''IMAGE''\<rparr>))))"
  by (simp add: set_read_mode_def ReadMode_def c_int_4 action_defs Let_def
      split: prod.splits result.splits option.splits)

text \<open>
  Claim C2 does not hold as stated: \<^verbatim>\<open>SetReadMode\<close> succeeds, \<^verbatim>\<open>SetImage\<close> is refused
  with 20066 (DRV_P1INVALID), and \<^verbatim>\<open>_set_read_mode('IMAGE')\<close> still returns 0 and
  replaces the read mode FVB by IMAGE.
\<close>

theorem failed_sub_region_still_commits:
  "read_mode (default_state\<lparr>read_mode := ''FVB'', width := 512, height := 512\<rparr>) = ''FVB'' \<and>
   code (sample_dll (\<lambda>c. case c of SetImage _ _ _ _ _ _ \<Rightarrow> 20066 | _ \<Rightarrow> 20002)
     [SetReadMode 4] (SetImage 1 1 1 512 1 512)) \<noteq> 20002 \<and>
   fst (set_read_mode (sample_dll (\<lambda>c. case c of SetImage _ _ _ _ _ _ \<Rightarrow> 20066 | _ \<Rightarrow> 20002))
     ''IMAGE'' (default_state\<lparr>read_mode := ''FVB'', width := 512, height := 512\<rparr>)) = Ret 0 \<and>
   read_mode (snd (set_read_mode
     (sample_dll (\<lambda>c. case c of SetImage _ _ _ _ _ _ \<Rightarrow> 20066 | _ \<Rightarrow> 20002))
     ''IMAGE'' (default_state\<lparr>read_mode := ''FVB'', width := 512, height := 512\<rparr>))) = ''IMAGE''"
  by (simp add: set_read_mode_image_run set_image_full_run Let_def
      default_state_def sample_dll_def ERROR_DICT_def c_int_def)

text \<open>
  Claim C2, amended. \<^verbatim>\<open>_set_read_mode('IMAGE')\<close> always sends \<^verbatim>\<open>SetReadMode(4)\<close> and
  then \<^verbatim>\<open>SetImage(1, 1, 1, width, 1, height)\<close> with the present width and height (as
  32-bit values), and nothing else. The outcome follows the status of
  \<^verbatim>\<open>SetReadMode\<close> alone: if it is success, 0 is returned and IMAGE is committed,
  whatever status of the table \<^verbatim>\<open>SetImage\<close> gave; if it is not, 0 is not returned
  and the read mode is as before (the result is -1 when both codes are of the table).
\<close>

theorem set_read_mode_image_commit:
  "calls_since s (snd (set_read_mode d ''IMAGE'' s)) =
     [SetReadMode 4, SetImage 1 1 1 (c_int (width s)) 1 (c_int (height s))] \<and>
   (code (d (calls s) (SetReadMode 4)) = 20002 \<and>
    code (d (calls s @ [SetReadMode 4])
       (SetImage 1 1 1 (c_int (width s)) 1 (c_int (height s)))) \<in> dom ERROR_DICT \<longrightarrow>
      fst (set_read_mode d ''IMAGE'' s) = Ret 0 \<and>
      read_mode (snd (set_read_mode d ''IMAGE'' s)) = ''IMAGE'') \<and>
   (code (d (calls s) (SetReadMode 4)) \<noteq> 20002 \<longrightarrow>
      fst (set_read_mode d ''IMAGE'' s) \<noteq> Ret 0 \<and>
      read_mode (snd (set_read_mode d ''IMAGE'' s)) = read_mode s) \<and>
   (code (d (calls s) (SetReadMode 4)) \<noteq> 20002 \<and>
    code (d (calls s) (SetReadMode 4)) \<in> dom ERROR_DICT \<and>
    code (d (calls s @ [SetReadMode 4])
       (SetImage 1 1 1 (c_int (width s)) 1 (c_int (height s)))) \<in> dom ERROR_DICT \<longrightarrow>
      fst (set_read_mode d ''IMAGE'' s) = Ret (-1))"
  using ERROR_DICT_success_iff [of "code (d (calls s) (SetReadMode 4))"]
  by (auto simp: set_read_mode_image_run set_image_full_run Let_def calls_since_def
      split: option.splits)

text \<open>Sample runs from the read mode FVB: every call succeeds; every call answers 20078.\<close>

theorem set_read_mode_image_commit_witness:
  "calls_since (default_state\<lparr>read_mode := ''FVB'', width := 512, height := 512\<rparr>)
     (snd (set_read_mode (sample_dll (\<lambda>_. 20002)) ''IMAGE''
        (default_state\<lparr>read_mode := ''FVB'', width := 512, height := 512\<rparr>))) =
     [SetReadMode 4, SetImage 1 1 1 512 1 512] \<and>
   fst (set_read_mode (sample_dll (\<lambda>_. 20002)) ''IMAGE''
        (default_state\<lparr>read_mode := ''FVB'', width := 512, height := 512\<rparr>)) = Ret 0 \<and>
   read_mode (snd (set_read_mode (sample_dll (\<lambda>_. 20002)) ''IMAGE''
        (default_state\<lparr>read_mode := ''FVB'', width := 512, height := 512\<rparr>))) = ''IMAGE'' \<and>
   fst (set_read_mode (sample_dll (\<lambda>_. 20078)) ''IMAGE''
        (default_state\<lparr>read_mode := ''FVB'', width := 512, height := 512\<rparr>)) = Ret (- 1) \<and>
   read_mode (snd (set_read_mode (sample_dll (\<lambda>_. 20078)) ''IMAGE''
        (default_state\<lparr>read_mode := ''FVB'', width := 512, height := 512\<rparr>))) = ''FVB''"
  using set_read_mode_image_commit [of
      "default_state\<lparr>read_mode := ''FVB'', width := 512, height := 512\<rparr>"
      "sample_dll (\<lambda>_. 20002)"]
    set_read_mode_image_commit [of
      "default_state\<lparr>read_mode := ''FVB'', width := 512, height := 512\<rparr>"
      "sample_dll (\<lambda>_. 20078)"]
  by (simp add: default_state_def sample_dll_def ERROR_DICT_def c_int_def)

subsection \<open>Setters: refused values and refused calls\<close>















subsection \<open>A single acquisition while live\<close>

text \<open>
  The four statements that open \<^verbatim>\<open>start_single_acquisition\<close> may call the library,
  but never to start or to wait, and they leave the two flags alone.
\<close>

lemma start_free_iff:
  "start_free s s' \<longleftrightarrow>
     live s' = live s \<and> acquiring s' = acquiring s \<and>
     (\<exists>cs. calls s' = calls s @ cs \<and> StartAcquisition \<notin> set cs \<and> WaitForAcquisition \<notin> set cs)"
proof
  assume a: "start_free s s'"
  then have "calls s' = calls s @ calls_since s s'"
    unfolding start_free_def calls_since_def
    by (metis append_take_drop_id)
  with a show "live s' = live s \<and> acquiring s' = acquiring s \<and>
     (\<exists>cs. calls s' = calls s @ cs \<and> StartAcquisition \<notin> set cs \<and> WaitForAcquisition \<notin> set cs)"
    unfolding start_free_def by blast
next
  assume "live s' = live s \<and> acquiring s' = acquiring s \<and>
     (\<exists>cs. calls s' = calls s @ cs \<and> StartAcquisition \<notin> set cs \<and> WaitForAcquisition \<notin> set cs)"
  then show "start_free s s'"
    by (auto simp: start_free_def calls_since_def)
qed

lemma start_free_refl: "start_free s s"
  by (simp add: start_free_iff)

lemma start_free_trans: "start_free s t \<Longrightarrow> start_free t u \<Longrightarrow> start_free s u"
  by (auto simp: start_free_iff)

lemma quiet_ret: "quiet d (ret a)"
  by (simp add: quiet_def ret_def start_free_refl is_raise_def)

lemma quiet_read: "quiet d (read f)"
  by (simp add: quiet_def read_def start_free_refl is_raise_def)

lemma quiet_say: "quiet d (say l m)"
  by (simp add: quiet_def say_def modify_def start_free_iff is_raise_def)

lemma quiet_if: "quiet d m \<Longrightarrow> quiet d n \<Longrightarrow> quiet d (if b then m else n)"
  by simp

lemma quiet_seq:
  assumes "quiet d m" and "\<And>a. quiet d (f a)"
  shows "quiet d (seq m f)"
  unfolding quiet_def
proof (intro allI)
  fix s
  obtain r s1 where run: "m s = (r, s1)"
    by (cases "m s")
  have "start_free s (snd (m s)) \<and> (known_codes d \<longrightarrow> \<not> is_raise (fst (m s)))"
    using assms(1) unfolding quiet_def by blast
  then have m: "start_free s s1" "known_codes d \<longrightarrow> \<not> is_raise r"
    by (simp_all add: run)
  show "start_free s (snd (seq m f s)) \<and> (known_codes d \<longrightarrow> \<not> is_raise (fst (seq m f s)))"
  proof (cases r)
    case (Ret a)
    have "start_free s1 (snd (f a s1))" "known_codes d \<longrightarrow> \<not> is_raise (fst (f a s1))"
      using assms(2) [of a] unfolding quiet_def by blast+
    then show ?thesis
      using m(1) by (auto simp: seq_def run Ret intro: start_free_trans)
  next
    case (Raise e)
    then show ?thesis
      using m by (simp add: seq_def run is_raise_def)
  qed
qed

lemma known_codes_lookup:
  "known_codes d \<Longrightarrow> \<exists>t. ERROR_DICT (code (d h c)) = Some t"
  by (auto simp: known_codes_def dom_def)

lemma quiet_set_shutter: "quiet d (set_shutter d typ mode ct ot)"
  unfolding quiet_def
proof (intro allI conjI impI)
  fix s
  show "start_free s (snd (set_shutter d typ mode ct ot s))"
    by (simp add: set_shutter_def action_defs start_free_iff split: option.splits)
  assume "known_codes d"
  from known_codes_lookup [OF this]
  show "\<not> is_raise (fst (set_shutter d typ mode ct ot s))"
    by (simp add: set_shutter_def action_defs is_raise_def split: option.splits)
qed

lemma quiet_set_acquisition_mode: "quiet d (set_acquisition_mode d ''SINGLE_SCAN'')"
  unfolding quiet_def
proof (intro allI conjI impI)
  fix s
  show "start_free s (snd (set_acquisition_mode d ''SINGLE_SCAN'' s))"
    by (simp add: set_acquisition_mode_def AcquisitionMode_def action_defs start_free_iff
        split: option.splits)
  assume "known_codes d"
  from known_codes_lookup [OF this]
  show "\<not> is_raise (fst (set_acquisition_mode d ''SINGLE_SCAN'' s))"
    by (simp add: set_acquisition_mode_def AcquisitionMode_def action_defs is_raise_def
        split: option.splits)
qed

lemma quiet_set_trigger_mode: "quiet d (set_trigger_mode d ''INTERNAL'')"
  unfolding quiet_def
proof (intro allI conjI impI)
  fix s
  show "start_free s (snd (set_trigger_mode d ''INTERNAL'' s))"
    by (simp add: set_trigger_mode_def TriggerMode_def action_defs start_free_iff
        split: option.splits)
  assume "known_codes d"
  from known_codes_lookup [OF this]
  show "\<not> is_raise (fst (set_trigger_mode d ''INTERNAL'' s))"
    by (simp add: set_trigger_mode_def TriggerMode_def action_defs is_raise_def
        split: option.splits)
qed

lemma quiet_set_read_mode: "quiet d (set_read_mode d ''IMAGE'')"
  unfolding quiet_def
proof (intro allI conjI impI)
  fix s
  show "start_free s (snd (set_read_mode d ''IMAGE'' s))"
    by (simp add: set_read_mode_image_run set_image_full_run Let_def start_free_iff
        split: option.splits)
  assume k: "known_codes d"
  obtain t1 where t1: "ERROR_DICT (code (d (calls s) (SetReadMode 4))) = Some t1"
    using known_codes_lookup [OF k] by blast
  obtain t2 where t2: "ERROR_DICT (code (d (calls s @ [SetReadMode 4])
      (SetImage 1 1 1 (c_int (width s)) 1 (c_int (height s))))) = Some t2"
    using known_codes_lookup [OF k] by blast
  show "\<not> is_raise (fst (set_read_mode d ''IMAGE'' s))"
    by (simp add: set_read_mode_image_run set_image_full_run Let_def is_raise_def t1 t2)
qed

lemma quiet_open_shutter:
  "quiet d (modify (\<lambda>s. s\<lparr>shutter := ''open''\<rparr>))"
  by (simp add: quiet_def modify_def start_free_iff is_raise_def)

lemma quiet_prepare: "quiet d (prepare_single_acquisition d)"
  unfolding prepare_single_acquisition_def
  by (intro quiet_seq quiet_read quiet_if quiet_ret quiet_say quiet_set_read_mode
      quiet_set_acquisition_mode quiet_set_trigger_mode quiet_set_shutter quiet_open_shutter)

text \<open>
  The calls of the four opening statements, one statement after the other: each
  makes its calls when its condition holds, and it can raise only after them.
\<close>

lemma seq_read: "seq (read f) g s = g (f s) s"
  by (simp add: seq_def read_def)

lemma traced_stage:
  "calls s1 = calls s @ c \<Longrightarrow> (is_raise r \<longrightarrow> c \<noteq> []) \<Longrightarrow> traced c s (r, s1)"
  unfolding traced_def by (intro exI [of _ c] exI [of _ "[]"]) simp

lemma traced_seq:
  assumes run: "m s = (r, t)" and c1: "calls t = calls s @ c1"
    and ne: "is_raise r \<longrightarrow> c1 \<noteq> []"
    and rest: "\<And>a. r = Ret a \<Longrightarrow> traced c2 t (f a t)"
  shows "traced (c1 @ c2) s (seq m f s)"
proof (cases r)
  case (Raise e)
  then have "seq m f s = (Raise e, t)"
    by (simp add: seq_def run)
  then show ?thesis
    using c1 ne Raise unfolding traced_def
    by (intro exI [of _ c1] exI [of _ c2]) (simp add: is_raise_def)
next
  case (Ret a)
  then have eq: "seq m f s = f a t"
    by (simp add: seq_def run)
  obtain dn rs where dn: "calls (snd (f a t)) = calls t @ dn" and c2: "c2 = dn @ rs"
    and r: "\<not> is_raise (fst (f a t)) \<longrightarrow> rs = []"
    and e: "is_raise (fst (f a t)) \<longrightarrow> dn \<noteq> []"
    using rest [OF Ret] unfolding traced_def by blast
  show ?thesis
    unfolding traced_def eq
    using dn c2 r e c1
    by (intro exI [of _ "c1 @ dn"] exI [of _ rs]) simp
qed

lemma stage_read_mode:
  "\<exists>r s1. (if read_mode s \<noteq> ''IMAGE'' then seq (set_read_mode d ''IMAGE'') (\<lambda>_. ret ())
            else ret ()) s = (r, s1) \<and>
     calls s1 = calls s @
       (if read_mode s \<noteq> ''IMAGE''
        then [SetReadMode 4, SetImage 1 1 1 (c_int (width s)) 1 (c_int (height s))] else []) \<and>
     (is_raise r \<longrightarrow> read_mode s \<noteq> ''IMAGE'') \<and>
     acquisition_mode s1 = acquisition_mode s \<and> trigger_mode s1 = trigger_mode s \<and>
     shutter s1 = shutter s"
  by (simp add: seq_def ret_def is_raise_def set_read_mode_image_run set_image_full_run Let_def
      split: option.splits)

lemma stage_acquisition_mode:
  "\<exists>r s1. (if acquisition_mode s \<noteq> ''SINGLE_SCAN''
            then seq (set_acquisition_mode d ''SINGLE_SCAN'') (\<lambda>_. ret ())
            else ret ()) s = (r, s1) \<and>
     calls s1 = calls s @
       (if acquisition_mode s \<noteq> ''SINGLE_SCAN'' then [SetAcquisitionMode 1] else []) \<and>
     (is_raise r \<longrightarrow> acquisition_mode s \<noteq> ''SINGLE_SCAN'') \<and>
     trigger_mode s1 = trigger_mode s \<and> shutter s1 = shutter s"
  by (simp add: set_acquisition_mode_def AcquisitionMode_def action_defs is_raise_def
      split: option.splits)

lemma stage_trigger_mode:
  "\<exists>r s1. (if trigger_mode s \<noteq> ''INTERNAL''
            then seq (set_trigger_mode d ''INTERNAL'') (\<lambda>_. ret ())
            else ret ()) s = (r, s1) \<and>
     calls s1 = calls s @
       (if trigger_mode s \<noteq> ''INTERNAL'' then [SetTriggerMode 0] else []) \<and>
     (is_raise r \<longrightarrow> trigger_mode s \<noteq> ''INTERNAL'') \<and>
     shutter s1 = shutter s"
  by (simp add: set_trigger_mode_def TriggerMode_def action_defs is_raise_def c_int_def
      split: option.splits)

lemma stage_shutter:
  "\<exists>r s1. (if shutter s = ''closed'' then
              seq (set_shutter d 0 1 (1 / 10) (1 / 10)) (\<lambda>msg.
              if msg = ''DRV_SUCCESS'' then modify (\<lambda>s. s\<lparr>shutter := ''open''\<rparr>)
              else say Error (ShutterDidNotOpen msg))
            else ret ()) s = (r, s1) \<and>
     calls s1 = calls s @
       (if shutter s = ''closed'' then [SetShutter 0 1 (1 / 10) (1 / 10)] else []) \<and>
     (is_raise r \<longrightarrow> shutter s = ''closed'')"
  by (simp add: set_shutter_def action_defs is_raise_def c_int_def split: option.splits)

lemma prepare_traced:
  "traced
     ((if read_mode s \<noteq> ''IMAGE''
       then [SetReadMode 4, SetImage 1 1 1 (c_int (width s)) 1 (c_int (height s))] else []) @
      (if acquisition_mode s \<noteq> ''SINGLE_SCAN'' then [SetAcquisitionMode 1] else []) @
      (if trigger_mode s \<noteq> ''INTERNAL'' then [SetTriggerMode 0] else []) @
      (if shutter s = ''closed'' then [SetShutter 0 1 (1 / 10) (1 / 10)] else []))
     s (prepare_single_acquisition d s)"
proof -
  obtain r1 s1 where
    m1: "(if read_mode s \<noteq> ''IMAGE'' then seq (set_read_mode d ''IMAGE'') (\<lambda>_. ret ())
          else ret ()) s = (r1, s1)"
    and c1: "calls s1 = calls s @
       (if read_mode s \<noteq> ''IMAGE''
        then [SetReadMode 4, SetImage 1 1 1 (c_int (width s)) 1 (c_int (height s))] else [])"
    and n1: "is_raise r1 \<longrightarrow> read_mode s \<noteq> ''IMAGE''"
    and k1: "acquisition_mode s1 = acquisition_mode s" "trigger_mode s1 = trigger_mode s"
      "shutter s1 = shutter s"
    using stage_read_mode [of s d] by blast
  obtain r2 s2 where
    m2: "(if acquisition_mode s1 \<noteq> ''SINGLE_SCAN''
          then seq (set_acquisition_mode d ''SINGLE_SCAN'') (\<lambda>_. ret ())
          else ret ()) s1 = (r2, s2)"
    and c2: "calls s2 = calls s1 @
       (if acquisition_mode s1 \<noteq> ''SINGLE_SCAN'' then [SetAcquisitionMode 1] else [])"
    and n2: "is_raise r2 \<longrightarrow> acquisition_mode s1 \<noteq> ''SINGLE_SCAN''"
    and k2: "trigger_mode s2 = trigger_mode s1" "shutter s2 = shutter s1"
    using stage_acquisition_mode [of s1 d] by blast
  obtain r3 s3 where
    m3: "(if trigger_mode s2 \<noteq> ''INTERNAL''
          then seq (set_trigger_mode d ''INTERNAL'') (\<lambda>_. ret ())
          else ret ()) s2 = (r3, s3)"
    and c3: "calls s3 = calls s2 @
       (if trigger_mode s2 \<noteq> ''INTERNAL'' then [SetTriggerMode 0] else [])"
    and n3: "is_raise r3 \<longrightarrow> trigger_mode s2 \<noteq> ''INTERNAL''"
    and k3: "shutter s3 = shutter s2"
    using stage_trigger_mode [of s2 d] by blast
  obtain r4 s4 where
    m4: "(if shutter s3 = ''closed'' then
              seq (set_shutter d 0 1 (1 / 10) (1 / 10)) (\<lambda>msg.
              if msg = ''DRV_SUCCESS'' then modify (\<lambda>s. s\<lparr>shutter := ''open''\<rparr>)
              else say Error (ShutterDidNotOpen msg))
            else ret ()) s3 = (r4, s4)"
    and c4: "calls s4 = calls s3 @
       (if shutter s3 = ''closed'' then [SetShutter 0 1 (1 / 10) (1 / 10)] else [])"
    and n4: "is_raise r4 \<longrightarrow> shutter s3 = ''closed''"
    using stage_shutter [of s3 d] by blast
  let ?k4 = "seq (read shutter) (\<lambda>sh.
         if sh = ''closed'' then
           seq (set_shutter d 0 1 (1 / 10) (1 / 10)) (\<lambda>msg.
           if msg = ''DRV_SUCCESS'' then modify (\<lambda>s. s\<lparr>shutter := ''open''\<rparr>)
           else say Error (ShutterDidNotOpen msg))
         else ret ())"
  let ?k3 = "seq (read trigger_mode) (\<lambda>tm.
         seq (if tm \<noteq> ''INTERNAL'' then seq (set_trigger_mode d ''INTERNAL'') (\<lambda>_. ret ())
              else ret ()) (\<lambda>_. ?k4))"
  let ?k2 = "seq (read acquisition_mode) (\<lambda>am.
         seq (if am \<noteq> ''SINGLE_SCAN''
              then seq (set_acquisition_mode d ''SINGLE_SCAN'') (\<lambda>_. ret ())
              else ret ()) (\<lambda>_. ?k3))"
  let ?c1 = "if read_mode s \<noteq> ''IMAGE''
       then [SetReadMode 4, SetImage 1 1 1 (c_int (width s)) 1 (c_int (height s))] else []"
  let ?c2 = "if acquisition_mode s \<noteq> ''SINGLE_SCAN'' then [SetAcquisitionMode 1] else []"
  let ?c3 = "if trigger_mode s \<noteq> ''INTERNAL'' then [SetTriggerMode 0] else []"
  let ?c4 = "if shutter s = ''closed'' then [SetShutter 0 1 (1 / 10) (1 / 10)] else []"
  have t4: "traced ?c4 s3 (?k4 s3)"
    unfolding seq_read m4
    using c4 n4 k1 k2 k3 by (intro traced_stage) simp_all
  have "traced (?c3 @ ?c4) s2 (seq (if trigger_mode s2 \<noteq> ''INTERNAL''
      then seq (set_trigger_mode d ''INTERNAL'') (\<lambda>_. ret ()) else ret ()) (\<lambda>_. ?k4) s2)"
    by (rule traced_seq [where r = r3 and t = s3], rule m3)
      (use c3 n3 k1 k2 t4 in simp_all)
  then have t3: "traced (?c3 @ ?c4) s2 (?k3 s2)"
    by (simp only: seq_read)
  have "traced (?c2 @ ?c3 @ ?c4) s1 (seq (if acquisition_mode s1 \<noteq> ''SINGLE_SCAN''
      then seq (set_acquisition_mode d ''SINGLE_SCAN'') (\<lambda>_. ret ()) else ret ())
      (\<lambda>_. ?k3) s1)"
    by (rule traced_seq [where r = r2 and t = s2], rule m2)
      (use c2 n2 k1 t3 in simp_all)
  then have t2: "traced (?c2 @ ?c3 @ ?c4) s1 (?k2 s1)"
    by (simp only: seq_read)
  have "traced (?c1 @ ?c2 @ ?c3 @ ?c4) s (seq (if read_mode s \<noteq> ''IMAGE''
      then seq (set_read_mode d ''IMAGE'') (\<lambda>_. ret ()) else ret ()) (\<lambda>_. ?k2) s)"
    by (rule traced_seq [where r = r1 and t = s1], rule m1)
      (use c1 n1 t2 in simp_all)
  then show ?thesis
    unfolding prepare_single_acquisition_def by (simp only: seq_read)
qed

text \<open>
  Claim C3 does not hold as stated: with the flag \<open>live\<close> set and the shutter
  closed (the default), the request is answered with -1 only after \<^verbatim>\<open>SetShutter\<close>
  has been sent to the library and the shutter has been marked open.
\<close>

theorem live_start_makes_calls:
  "live (default_state\<lparr>live := True\<rparr>) \<and>
   calls (default_state\<lparr>live := True\<rparr>) = [] \<and>
   start_single_acquisition (sample_dll (\<lambda>_. 20002)) (default_state\<lparr>live := True\<rparr>) =
     (Ret (PInt (- 1)),
      default_state\<lparr>live := True, shutter := ''open'',
        calls := [SetShutter 0 1 (1 / 10) (1 / 10)]\<rparr>)"
  by (simp add: start_single_acquisition_def prepare_single_acquisition_def
      set_shutter_def action_defs sample_dll_def default_state_def ERROR_DICT_def c_int_def)

text \<open>
  Claim C3, amended. In every state with the flag \<open>live\<close> set,
  \<^verbatim>\<open>start_single_acquisition\<close> never sends \<^verbatim>\<open>StartAcquisition\<close> (nor
  \<^verbatim>\<open>WaitForAcquisition\<close>) to the library and leaves both flags as they were. It
  returns -1 unless one of the setters that run first raises, and it returns -1
  whenever the status codes of the library are all in the table. Before that the
  normalising calls are made: \<^verbatim>\<open>SetReadMode(4)\<close> and \<^verbatim>\<open>SetImage\<close> over the full
  detector when the read mode is not IMAGE, \<^verbatim>\<open>SetAcquisitionMode(1)\<close> when the
  acquisition mode is not SINGLE_SCAN, \<^verbatim>\<open>SetTriggerMode(0)\<close> when the trigger mode
  is not INTERNAL, \<^verbatim>\<open>SetShutter(0, 1, 0.1, 0.1)\<close> when the shutter is closed. When
  -1 is returned the calls made are exactly these, in this order; when a setter
  raises they are an initial part of these. No call at all is made if and only if
  the read mode is IMAGE, the acquisition mode SINGLE_SCAN, the trigger mode
  INTERNAL and the shutter not closed, and then the state is as before.
\<close>

theorem live_start_never_starts:
  assumes "live s"
  shows "StartAcquisition \<notin> set (calls_since s (snd (start_single_acquisition d s))) \<and>
    WaitForAcquisition \<notin> set (calls_since s (snd (start_single_acquisition d s))) \<and>
    live (snd (start_single_acquisition d s)) \<and>
    acquiring (snd (start_single_acquisition d s)) = acquiring s \<and>
    (fst (start_single_acquisition d s) = Ret (PInt (- 1)) \<or>
     is_raise (fst (start_single_acquisition d s))) \<and>
    (known_codes d \<longrightarrow> fst (start_single_acquisition d s) = Ret (PInt (- 1))) \<and>
    (\<exists>rest.
       (if read_mode s \<noteq> ''IMAGE''
        then [SetReadMode 4, SetImage 1 1 1 (c_int (width s)) 1 (c_int (height s))] else []) @
       (if acquisition_mode s \<noteq> ''SINGLE_SCAN'' then [SetAcquisitionMode 1] else []) @
       (if trigger_mode s \<noteq> ''INTERNAL'' then [SetTriggerMode 0] else []) @
       (if shutter s = ''closed'' then [SetShutter 0 1 (1 / 10) (1 / 10)] else []) =
         calls_since s (snd (start_single_acquisition d s)) @ rest \<and>
       (fst (start_single_acquisition d s) = Ret (PInt (- 1)) \<longrightarrow> rest = [])) \<and>
    (calls_since s (snd (start_single_acquisition d s)) = [] \<longleftrightarrow>
       read_mode s = ''IMAGE'' \<and> acquisition_mode s = ''SINGLE_SCAN'' \<and>
       trigger_mode s = ''INTERNAL'' \<and> shutter s \<noteq> ''closed'') \<and>
    (read_mode s = ''IMAGE'' \<and> acquisition_mode s = ''SINGLE_SCAN'' \<and>
     trigger_mode s = ''INTERNAL'' \<and> shutter s \<noteq> ''closed'' \<longrightarrow>
       start_single_acquisition d s = (Ret (PInt (- 1)), s))"
proof -
  let ?full = "(if read_mode s \<noteq> ''IMAGE''
        then [SetReadMode 4, SetImage 1 1 1 (c_int (width s)) 1 (c_int (height s))] else []) @
       (if acquisition_mode s \<noteq> ''SINGLE_SCAN'' then [SetAcquisitionMode 1] else []) @
       (if trigger_mode s \<noteq> ''INTERNAL'' then [SetTriggerMode 0] else []) @
       (if shutter s = ''closed'' then [SetShutter 0 1 (1 / 10) (1 / 10)] else [])"
  obtain r s1 where p: "prepare_single_acquisition d s = (r, s1)"
    by (cases "prepare_single_acquisition d s")
  have "start_free s (snd (prepare_single_acquisition d s)) \<and>
      (known_codes d \<longrightarrow> \<not> is_raise (fst (prepare_single_acquisition d s)))"
    using quiet_prepare [of d] unfolding quiet_def by blast
  then have sf: "start_free s s1" and nr: "known_codes d \<longrightarrow> \<not> is_raise r"
    by (simp_all add: p)
  have lv: "live s1"
    using sf assms by (simp add: start_free_def)
  have run: "start_single_acquisition d s =
      (case r of Raise e \<Rightarrow> (Raise e, s1) | Ret _ \<Rightarrow> (Ret (PInt (- 1)), s1))"
    by (simp add: start_single_tail p lv split: result.splits)
  have s1: "snd (start_single_acquisition d s) = s1"
    by (simp add: run split: result.splits)
  have res: "fst (start_single_acquisition d s) = Ret (PInt (- 1)) \<or>
      is_raise (fst (start_single_acquisition d s))"
    by (simp add: run is_raise_def split: result.splits)
  have ret: "fst (start_single_acquisition d s) = Ret (PInt (- 1)) \<longleftrightarrow> \<not> is_raise r"
    by (simp add: run is_raise_def split: result.splits)
  have known: "known_codes d \<longrightarrow> fst (start_single_acquisition d s) = Ret (PInt (- 1))"
    using nr by (simp add: ret)
  obtain made rest where made: "calls s1 = calls s @ made" and full: "?full = made @ rest"
    and some: "is_raise r \<longrightarrow> made \<noteq> []" and all: "\<not> is_raise r \<longrightarrow> rest = []"
    using prepare_traced [of s d] unfolding traced_def p by auto
  have since: "calls_since s s1 = made"
    by (simp add: calls_since_def made)
  have trace: "\<exists>rest. ?full = calls_since s s1 @ rest \<and>
      (fst (start_single_acquisition d s) = Ret (PInt (- 1)) \<longrightarrow> rest = [])"
    using full all by (intro exI [of _ rest]) (simp add: since ret)
  have "made = [] \<longleftrightarrow> ?full = []"
    using full some all by auto
  then have none: "calls_since s s1 = [] \<longleftrightarrow>
       read_mode s = ''IMAGE'' \<and> acquisition_mode s = ''SINGLE_SCAN'' \<and>
       trigger_mode s = ''INTERNAL'' \<and> shutter s \<noteq> ''closed''"
    by (simp add: since)
  have idle: "read_mode s = ''IMAGE'' \<and> acquisition_mode s = ''SINGLE_SCAN'' \<and>
     trigger_mode s = ''INTERNAL'' \<and> shutter s \<noteq> ''closed'' \<longrightarrow>
       start_single_acquisition d s = (Ret (PInt (- 1)), s)"
    using assms
    by (simp add: start_single_acquisition_def prepare_single_acquisition_def action_defs)
  have flags: "StartAcquisition \<notin> set (calls_since s s1)"
    "WaitForAcquisition \<notin> set (calls_since s s1)" "acquiring s1 = acquiring s"
    using sf by (simp_all add: start_free_def)
  show ?thesis
    unfolding s1
    by (intro conjI flags lv res known trace none idle)
qed

text \<open>
  Sample runs with the flag \<open>live\<close> set: from FVB, KINETICS and EXTERNAL with the
  shutter closed, where all five calls are made; from the default modes with the
  shutter open, where none is.
\<close>

lemma known_codes_sample: "known_codes (sample_dll (\<lambda>_. 20002))"
  by (simp add: known_codes_def sample_dll_def ERROR_DICT_def dom_def)

theorem live_start_never_starts_witness:
  "calls_since
     (default_state\<lparr>live := True, read_mode := ''FVB'', acquisition_mode := ''KINETICS'',
        trigger_mode := ''EXTERNAL'', width := 512, height := 512\<rparr>)
     (snd (start_single_acquisition (sample_dll (\<lambda>_. 20002))
        (default_state\<lparr>live := True, read_mode := ''FVB'', acquisition_mode := ''KINETICS'',
           trigger_mode := ''EXTERNAL'', width := 512, height := 512\<rparr>))) =
     [SetReadMode 4, SetImage 1 1 1 512 1 512, SetAcquisitionMode 1, SetTriggerMode 0,
      SetShutter 0 1 (1 / 10) (1 / 10)] \<and>
   \<not> acquiring (snd (start_single_acquisition (sample_dll (\<lambda>_. 20002))
        (default_state\<lparr>live := True, read_mode := ''FVB'', acquisition_mode := ''KINETICS'',
           trigger_mode := ''EXTERNAL'', width := 512, height := 512\<rparr>))) \<and>
   fst (start_single_acquisition (sample_dll (\<lambda>_. 20002))
        (default_state\<lparr>live := True, read_mode := ''FVB'', acquisition_mode := ''KINETICS'',
           trigger_mode := ''EXTERNAL'', width := 512, height := 512\<rparr>)) = Ret (PInt (- 1)) \<and>
   start_single_acquisition (sample_dll (\<lambda>_. 20002))
      (default_state\<lparr>live := True, shutter := ''open''\<rparr>) =
     (Ret (PInt (- 1)), default_state\<lparr>live := True, shutter := ''open''\<rparr>)"
proof -
  let ?s = "default_state\<lparr>live := True, read_mode := ''FVB'', acquisition_mode := ''KINETICS'',
           trigger_mode := ''EXTERNAL'', width := 512, height := 512\<rparr>"
  let ?t = "default_state\<lparr>live := True, shutter := ''open''\<rparr>"
  let ?d = "sample_dll (\<lambda>_. 20002)"
  have live: "live ?s" "live ?t"
    by (simp_all add: default_state_def)
  note busy = live_start_never_starts [OF live(1), of ?d]
  note idle = live_start_never_starts [OF live(2), of ?d]
  have ret: "fst (start_single_acquisition ?d ?s) = Ret (PInt (- 1))"
    using busy known_codes_sample by blast
  obtain rest where
    "(if read_mode ?s \<noteq> ''IMAGE''
        then [SetReadMode 4, SetImage 1 1 1 (c_int (width ?s)) 1 (c_int (height ?s))] else []) @
       (if acquisition_mode ?s \<noteq> ''SINGLE_SCAN'' then [SetAcquisitionMode 1] else []) @
       (if trigger_mode ?s \<noteq> ''INTERNAL'' then [SetTriggerMode 0] else []) @
       (if shutter ?s = ''closed'' then [SetShutter 0 1 (1 / 10) (1 / 10)] else []) =
         calls_since ?s (snd (start_single_acquisition ?d ?s)) @ rest" and "rest = []"
    using busy ret by blast
  then have sent: "calls_since ?s (snd (start_single_acquisition ?d ?s)) =
     [SetReadMode 4, SetImage 1 1 1 512 1 512, SetAcquisitionMode 1, SetTriggerMode 0,
      SetShutter 0 1 (1 / 10) (1 / 10)]"
    by (simp add: default_state_def c_int_def)
  have flag: "\<not> acquiring (snd (start_single_acquisition ?d ?s))"
    using busy by (simp add: default_state_def)
  have none: "start_single_acquisition ?d ?t = (Ret (PInt (- 1)), ?t)"
    using idle by (simp add: default_state_def)
  show ?thesis
    by (intro conjI sent flag ret none)
qed

end
